theory Spec2Isabelle
  imports Main
begin

section \<open>L1 transaction receipts and the L1-to-L2 messages they create\<close>

text \<open>
  A shallow embedding of \<^verbatim>\<open>packages/arb-ts/src/lib/message/L1Transaction.ts\<close>: the class
  \<^verbatim>\<open>L1TransactionReceipt\<close> with its constructor, \<^verbatim>\<open>getMessageNumbers\<close>,
  \<^verbatim>\<open>getL1ToL2Messages\<close>, \<^verbatim>\<open>getL1ToL2Message\<close>, \<^verbatim>\<open>getDepositEvents\<close>,
  \<^verbatim>\<open>looksLikeEthDeposit\<close> and \<^verbatim>\<open>monkeyPatchWait\<close>.

  Conventions of the embedding.
  \<^item> A JavaScript value that may be \<^verbatim>\<open>undefined\<close> is an \<open>option\<close>, with \<open>None\<close> for
    \<^verbatim>\<open>undefined\<close>: optional fields, optional parameters, and the result of indexing an
    array.
  \<^item> A \<^verbatim>\<open>number\<close> is an \<open>int\<close>: the numbers of this file are indices, counts, chain ids
    and block numbers. Fractions, \<^verbatim>\<open>NaN\<close> and the infinities are outside the embedding.
  \<^item> A \<^verbatim>\<open>BigNumber\<close> is an \<open>int\<close>, a hexadecimal or hash string a \<open>string\<close>.
  \<^item> A \<^verbatim>\<open>throw\<close>, and the rejection of an awaited promise, is the \<open>Inl\<close> of a result
    \<open>error + 'a\<close>; an \<^verbatim>\<open>async\<close> function is the function from its arguments to the
    calls it makes on the chain and its outcome once awaited.
\<close>

subsection \<open>Errors\<close>

text \<open>
  The file itself throws only \<^verbatim>\<open>ArbTsError\<close>, with a message. Every other exception comes
  out of a collaborator (\<^verbatim>\<open>BigNumber.from\<close>, \<^verbatim>\<open>Interface.parseLog\<close>,
  \<^verbatim>\<open>SignerProviderUtils.getProviderOrThrow\<close>, a provider call) and passes through this file unchanged: no function here has a
  \<^verbatim>\<open>try\<close>.
\<close>

datatype error =
    ArbTsError string
  | Thrown string

subsection \<open>JavaScript primitives the file relies on\<close>

text \<open>\<^verbatim>\<open>xs[i]\<close>: the element at an index within the array, \<^verbatim>\<open>undefined\<close> elsewhere
  (also at a negative index, which names no element).\<close>

definition js_index :: "'a list \<Rightarrow> int \<Rightarrow> 'a option" where
  "js_index xs i = (if 0 \<le> i \<and> i < int (length xs) then Some (xs ! nat i) else None)"

text \<open>\<^verbatim>\<open>s.startsWith(p)\<close>.\<close>

definition startsWith :: "string \<Rightarrow> string \<Rightarrow> bool" where
  "startsWith s p = (take (length p) s = p)"

text \<open>
  \<^verbatim>\<open>n.toString()\<close> and \<^verbatim>\<open>`${n}`\<close> of an integral number: decimal digits, with a minus
  sign. (JavaScript switches to exponent notation from \<open>10\<^sup>2\<^sup>1\<close> on; the numbers printed
  by this file are array lengths, indices and chain ids.)
\<close>

fun digits :: "nat \<Rightarrow> string" where
  "digits n =
     (if n < 10 then [''0123456789'' ! n]
      else digits (n div 10) @ [''0123456789'' ! (n mod 10)])"

declare digits.simps [simp del]

definition Number_toString :: "int \<Rightarrow> string" where
  "Number_toString i = (if i < 0 then CHR ''-'' # digits (nat (- i)) else digits (nat i))"

text \<open>\<^verbatim>\<open>xs.map(f)\<close> with a callback that may throw: the first exception ends the call.\<close>

fun map_throwing :: "('a \<Rightarrow> error + 'b) \<Rightarrow> 'a list \<Rightarrow> error + 'b list" where
  "map_throwing f [] = Inr []"
| "map_throwing f (x # xs) =
     (case f x of
        Inl e \<Rightarrow> Inl e
      | Inr y \<Rightarrow> (case map_throwing f xs of Inl e \<Rightarrow> Inl e | Inr ys \<Rightarrow> Inr (y # ys)))"

subsection \<open>Data\<close>

text \<open>A log entry (\<^verbatim>\<open>Log\<close> of the provider library). The file reads \<^verbatim>\<open>topics\<close> and
  hands the whole entry to \<^verbatim>\<open>parseLog\<close>.\<close>

record Log =
  topics :: "string list"
  log_data :: string
  log_address :: string
  logIndex :: int

text \<open>
  The receipt. \<^verbatim>\<open>TransactionReceipt\<close> is an interface, so the raw receipt given to the
  constructor is any object with at least these fields: a record scheme. The class
  \<^verbatim>\<open>L1TransactionReceipt\<close> declares exactly these seventeen fields, all
  \<^verbatim>\<open>readonly\<close>: the record with nothing more. \<^verbatim>\<open>root\<close> and \<^verbatim>\<open>status\<close> are
  optional. (\<^verbatim>\<open>from\<close> and \<^verbatim>\<open>type\<close> are written \<open>from'\<close> and \<open>type'\<close>.)
\<close>

record TransactionReceipt =
  to :: string
  from' :: string
  contractAddress :: string
  transactionIndex :: int
  root :: "string option"
  gasUsed :: int
  logsBloom :: string
  blockHash :: string
  transactionHash :: string
  logs :: "Log list"
  blockNumber :: int
  confirmations :: int
  cumulativeGasUsed :: int
  effectiveGasPrice :: int
  byzantium :: bool
  type' :: int
  status :: "int option"

type_synonym L1TransactionReceipt = TransactionReceipt

definition L1TransactionReceipt :: "'a TransactionReceipt_scheme \<Rightarrow> L1TransactionReceipt" where
  "L1TransactionReceipt tx =
     \<lparr> to = to tx,
       from' = from' tx,
       contractAddress = contractAddress tx,
       transactionIndex = transactionIndex tx,
       root = root tx,
       gasUsed = gasUsed tx,
       logsBloom = logsBloom tx,
       blockHash = blockHash tx,
       transactionHash = transactionHash tx,
       logs = logs tx,
       blockNumber = blockNumber tx,
       confirmations = confirmations tx,
       cumulativeGasUsed = cumulativeGasUsed tx,
       effectiveGasPrice = effectiveGasPrice tx,
       byzantium = byzantium tx,
       type' = type' tx,
       status = status tx \<rparr>"

subsection \<open>The chain behind a handle\<close>

text \<open>
  A provider is modelled by what its two calls used here resolve to, \<open>Inl\<close> being a
  rejected promise; the values it resolves to are of the types the calls declare. Each
  call an operation makes is recorded in the order made, so that the calls can be counted.
\<close>

record Network =
  chainId :: int

record TransactionResponse =
  data :: string

record Provider =
  getNetwork :: "error + Network"
  getTransaction :: "string \<Rightarrow> error + TransactionResponse"

datatype chain_call = GetNetwork | GetTransaction string

subsection \<open>Collaborators\<close>

text \<open>
  What the file imports and the sources do not contain is a parameter of the embedding:
  \<^item> the three event topics that \<^verbatim>\<open>iface.getEventTopic\<close> computes from the generated
    ABIs (\<^verbatim>\<open>Inbox__factory\<close>, \<^verbatim>\<open>L1ERC20Gateway__factory\<close>);
  \<^item> \<^verbatim>\<open>BigNumber.from\<close>, which throws on what is not a number;
  \<^item> \<^verbatim>\<open>iface.parseLog(log).args\<close>, which throws on a log that does not fit the event;
  \<^item> \<^verbatim>\<open>SignerProviderUtils.getProviderOrThrow\<close>, on handles of any type \<open>'h\<close>;
  \<^item> \<^verbatim>\<open>L1ToL2Message.calculateRetryableCreationId\<close> and
    \<^verbatim>\<open>L1ToL2Message.fromRetryableCreationId\<close>, with messages of any type \<open>'m\<close>.
\<close>

record ('h, 'm, 'args) collaborators =
  InboxMessageDelivered :: string
  InboxMessageDeliveredFromOrigin :: string
  DepositInitiated :: string
  BigNumber_from :: "string option \<Rightarrow> error + int"
  parseLog_args :: "Log \<Rightarrow> error + 'args"
  getProviderOrThrow :: "'h \<Rightarrow> error + Provider"
  calculateRetryableCreationId :: "int \<Rightarrow> int \<Rightarrow> string"
  fromRetryableCreationId :: "'h \<Rightarrow> string \<Rightarrow> int \<Rightarrow> 'm"

subsection \<open>The methods of \<^verbatim>\<open>L1TransactionReceipt\<close>\<close>

definition getMessageNumbers ::
  "('h, 'm, 'args) collaborators \<Rightarrow> L1TransactionReceipt \<Rightarrow> error + int list" where
  "getMessageNumbers E this =
     (let logs' = filter
            (\<lambda>log. js_index (topics log) 0 = Some (InboxMessageDelivered E) \<or>
                   js_index (topics log) 0 = Some (InboxMessageDeliveredFromOrigin E))
            (logs this)
      in map_throwing (\<lambda>log. BigNumber_from E (js_index (topics log) 1)) logs')"

definition getL1ToL2Messages ::
  "('h, 'm, 'args) collaborators \<Rightarrow> L1TransactionReceipt \<Rightarrow> 'h \<Rightarrow>
     chain_call list \<times> (error + 'm list)" where
  "getL1ToL2Messages E this l2SignerOrProvider =
     (case getProviderOrThrow E l2SignerOrProvider of
        Inl e \<Rightarrow> ([], Inl e)
      | Inr provider \<Rightarrow>
          (case getNetwork provider of
             Inl e \<Rightarrow> ([GetNetwork], Inl e)
           | Inr network \<Rightarrow>
               (let chainID = Number_toString (chainId network) in
                case getMessageNumbers E this of
                  Inl e \<Rightarrow> ([GetNetwork], Inl e)
                | Inr messageNumbers \<Rightarrow>
                    if length messageNumbers = 0 then ([GetNetwork], Inr [])
                    else
                      ([GetNetwork],
                       map_throwing
                         (\<lambda>mn. case BigNumber_from E (Some chainID) of
                                 Inl e \<Rightarrow> Inl e
                               | Inr c \<Rightarrow>
                                   (let ticketCreationHash = calculateRetryableCreationId E c mn
                                    in Inr (fromRetryableCreationId E l2SignerOrProvider
                                              ticketCreationHash mn)))
                         messageNumbers))))"

text \<open>\<^verbatim>\<open>messageIndex || 0\<close>: \<^verbatim>\<open>undefined\<close> and \<open>0\<close> are falsy.\<close>

definition or_zero :: "int option \<Rightarrow> int" where
  "or_zero messageIndex = (case messageIndex of None \<Rightarrow> 0 | Some i \<Rightarrow> if i = 0 then 0 else i)"

definition getL1ToL2Message ::
  "('h, 'm, 'args) collaborators \<Rightarrow> L1TransactionReceipt \<Rightarrow> 'h \<Rightarrow> int option \<Rightarrow>
     chain_call list \<times> (error + 'm option)" where
  "getL1ToL2Message E this l2SignerOrProvider messageIndex =
     (case getL1ToL2Messages E this l2SignerOrProvider of
        (calls, Inl e) \<Rightarrow> (calls, Inl e)
      | (calls, Inr allL1ToL2Messages) \<Rightarrow>
          (let messageCount = int (length allL1ToL2Messages) in
           if messageCount = 0 then
             (calls, Inl (ArbTsError
                (''No l1 to L2 message found for '' @ transactionHash this)))
           else if messageIndex \<noteq> None \<and> the messageIndex \<ge> messageCount then
             (calls, Inl (ArbTsError
                (''Provided message number out of range for '' @ transactionHash this @
                 ''; index was '' @ Number_toString (the messageIndex) @
                 '', but only '' @ Number_toString messageCount @ '' messages'')))
           else if messageIndex = None \<and> messageCount > 1 then
             (calls, Inl (ArbTsError
                (Number_toString messageCount @ '' L2 messages for '' @ transactionHash this @
                 ''; must provide messageNumberIndex (or use (signersAndProviders, l1Txn))'')))
           else (calls, Inr (js_index allL1ToL2Messages (or_zero messageIndex)))))"

definition getDepositEvents ::
  "('h, 'm, 'args) collaborators \<Rightarrow> L1TransactionReceipt \<Rightarrow> error + 'args list" where
  "getDepositEvents E this =
     (let logs' = filter (\<lambda>log. js_index (topics log) 0 = Some (DepositInitiated E)) (logs this)
      in map_throwing (\<lambda>log. parseLog_args E log) logs')"

definition depositEth_FUNCTION_SIG :: string where
  "depositEth_FUNCTION_SIG = ''0x0f4d14e9''"

definition looksLikeEthDeposit ::
  "('h, 'm, 'args) collaborators \<Rightarrow> L1TransactionReceipt \<Rightarrow> 'h \<Rightarrow>
     chain_call list \<times> (error + bool)" where
  "looksLikeEthDeposit E this l1SignerOrProvider =
     (case getProviderOrThrow E l1SignerOrProvider of
        Inl e \<Rightarrow> ([], Inl e)
      | Inr l1Provider \<Rightarrow>
          (case getTransaction l1Provider (transactionHash this) of
             Inl e \<Rightarrow> ([GetTransaction (transactionHash this)], Inl e)
           | Inr txRes \<Rightarrow>
               ([GetTransaction (transactionHash this)],
                Inr (startsWith (data txRes) depositEth_FUNCTION_SIG))))"

subsection \<open>\<^verbatim>\<open>monkeyPatchWait\<close>\<close>

text \<open>
  A contract transaction is its \<^verbatim>\<open>wait\<close>, from the optional number of confirmations to
  what the promise settles to, and its other fields, which the function does not touch.
  The function assigns the new \<^verbatim>\<open>wait\<close> to the object it was given and returns that
  object; the new \<^verbatim>\<open>wait\<close> calls the one read before the assignment, as a plain
  function of the confirmations.
\<close>

record ('r, 'o) ContractTransaction =
  wait :: "int option \<Rightarrow> error + 'r"
  others :: 'o

definition monkeyPatchWait ::
  "('a TransactionReceipt_scheme, 'o) ContractTransaction \<Rightarrow>
     (L1TransactionReceipt, 'o) ContractTransaction" where
  "monkeyPatchWait contractTransaction =
     (let wait' = wait contractTransaction in
      \<lparr> wait = (\<lambda>confirmations.
                  case wait' confirmations of
                    Inl e \<Rightarrow> Inl e
                  | Inr result \<Rightarrow> Inr (L1TransactionReceipt result)),
        others = others contractTransaction \<rparr>)"

subsection \<open>The specification's view of extraction\<close>

text \<open>
  A message-delivery entry is a log entry whose first topic is one of the two event
  topics. The numbers a sequence of log entries delivers are read off entry by entry:
  an unrelated entry contributes nothing, a message-delivery entry contributes the
  integer decoded from its second topic, and the order is the order of the entries.
\<close>

definition is_message_delivery :: "('h, 'm, 'args) collaborators \<Rightarrow> Log \<Rightarrow> bool" where
  "is_message_delivery E log =
     (case topics log of
        [] \<Rightarrow> False
      | t # _ \<Rightarrow> t = InboxMessageDelivered E \<or> t = InboxMessageDeliveredFromOrigin E)"

inductive delivered_numbers ::
  "('h, 'm, 'args) collaborators \<Rightarrow> Log list \<Rightarrow> int list \<Rightarrow> bool"
  for E :: "('h, 'm, 'args) collaborators" where
  no_logs: "delivered_numbers E [] []"
| unrelated:
    "\<not> is_message_delivery E log \<Longrightarrow> delivered_numbers E ls ns \<Longrightarrow>
       delivered_numbers E (log # ls) ns"
| delivery:
    "is_message_delivery E log \<Longrightarrow> BigNumber_from E (js_index (topics log) 1) = Inr n \<Longrightarrow>
       delivered_numbers E ls ns \<Longrightarrow> delivered_numbers E (log # ls) (n # ns)"

code_pred delivered_numbers .

subsection \<open>An instance of the collaborators\<close>

text \<open>
  To run the methods on concrete receipts the parameters need values. In this instance
  a handle is a provider, or a signer that may have no provider;
  \<open>BigNumber_from\<close> reads decimal strings and \<open>0x\<close> hexadecimal strings and throws on
  everything else, \<^verbatim>\<open>undefined\<close> included; a deposit log has four topics; a message is a
  reader for a provider and a writer for a signer. The topics are short readable strings.
\<close>

datatype handle = ProviderHandle Provider | SignerHandle "Provider option"

datatype message =
    L1ToL2MessageReader handle string int
  | L1ToL2MessageWriter handle string int

definition digit_value :: "char \<Rightarrow> nat option" where
  "digit_value c =
     map_of [(CHR ''0'', 0), (CHR ''1'', 1), (CHR ''2'', 2), (CHR ''3'', 3), (CHR ''4'', 4),
             (CHR ''5'', 5), (CHR ''6'', 6), (CHR ''7'', 7), (CHR ''8'', 8), (CHR ''9'', 9),
             (CHR ''a'', 10), (CHR ''b'', 11), (CHR ''c'', 12), (CHR ''d'', 13),
             (CHR ''e'', 14), (CHR ''f'', 15)] c"

fun read_digits :: "nat \<Rightarrow> string \<Rightarrow> nat \<Rightarrow> nat option" where
  "read_digits b [] acc = Some acc"
| "read_digits b (c # cs) acc =
     (case digit_value c of
        None \<Rightarrow> None
      | Some d \<Rightarrow> if d < b then read_digits b cs (acc * b + d) else None)"

definition demo_BigNumber_from :: "string option \<Rightarrow> error + int" where
  "demo_BigNumber_from v =
     (case v of
        None \<Rightarrow> Inl (Thrown ''invalid BigNumber value'')
      | Some s \<Rightarrow>
          if take 2 s = ''0x'' then
            (case read_digits 16 (drop 2 s) 0 of
               None \<Rightarrow> Inl (Thrown ''invalid BigNumber string'')
             | Some n \<Rightarrow> Inr (int n))
          else if s = [] then Inl (Thrown ''invalid BigNumber string'')
          else if hd s = CHR ''-'' \<and> tl s \<noteq> [] then
            (case read_digits 10 (tl s) 0 of
               None \<Rightarrow> Inl (Thrown ''invalid BigNumber string'')
             | Some n \<Rightarrow> Inr (- int n))
          else
            (case read_digits 10 s 0 of
               None \<Rightarrow> Inl (Thrown ''invalid BigNumber string'')
             | Some n \<Rightarrow> Inr (int n)))"

definition demo_getProviderOrThrow :: "handle \<Rightarrow> error + Provider" where
  "demo_getProviderOrThrow h =
     (case h of
        ProviderHandle p \<Rightarrow> Inr p
      | SignerHandle (Some p) \<Rightarrow> Inr p
      | SignerHandle None \<Rightarrow> Inl (Thrown ''signerOrProvider does not have a provider''))"

definition demo_fromRetryableCreationId :: "handle \<Rightarrow> string \<Rightarrow> int \<Rightarrow> message" where
  "demo_fromRetryableCreationId h retryableCreationId messageNumber =
     (case h of
        ProviderHandle _ \<Rightarrow> L1ToL2MessageReader h retryableCreationId messageNumber
      | SignerHandle _ \<Rightarrow> L1ToL2MessageWriter h retryableCreationId messageNumber)"

definition demo_parseLog_args :: "Log \<Rightarrow> error + string list" where
  "demo_parseLog_args log =
     (if length (topics log) = 4 then Inr (tl (topics log) @ [log_data log])
      else Inl (Thrown ''topic count mismatch''))"

definition demo :: "(handle, message, string list) collaborators" where
  "demo =
     \<lparr> InboxMessageDelivered = ''InboxMessageDelivered'',
       InboxMessageDeliveredFromOrigin = ''InboxMessageDeliveredFromOrigin'',
       DepositInitiated = ''DepositInitiated'',
       BigNumber_from = demo_BigNumber_from,
       parseLog_args = demo_parseLog_args,
       getProviderOrThrow = demo_getProviderOrThrow,
       calculateRetryableCreationId =
         (\<lambda>c n. ''ticket/'' @ Number_toString c @ ''/'' @ Number_toString n),
       fromRetryableCreationId = demo_fromRetryableCreationId \<rparr>"

text \<open>A chain with id 42161 that knows one transaction, a chain that cannot be reached,
  and receipts with given logs.\<close>

definition arb1 :: Provider where
  "arb1 =
     \<lparr> getNetwork = Inr \<lparr> chainId = 42161 \<rparr>,
       getTransaction =
         (\<lambda>h. if h = ''0xaa'' then Inr \<lparr> data = ''0x0f4d14e90000002a'' \<rparr>
              else if h = ''0xbb'' then Inr \<lparr> data = ''0xa9059cbb0f4d14e9'' \<rparr>
              else Inl (Thrown ''unknown transaction'')) \<rparr>"

definition unreachable :: Provider where
  "unreachable =
     \<lparr> getNetwork = Inl (Thrown ''could not detect network''),
       getTransaction = (\<lambda>h. Inl (Thrown ''could not detect network'')) \<rparr>"

definition log_with :: "string list \<Rightarrow> Log" where
  "log_with ts = \<lparr> topics = ts, log_data = ''0x'', log_address = ''0x00'', logIndex = 0 \<rparr>"

definition receipt_with :: "string \<Rightarrow> Log list \<Rightarrow> L1TransactionReceipt" where
  "receipt_with h ls =
     \<lparr> to = ''0x01'', from' = ''0x02'', contractAddress = '''', transactionIndex = 0,
       root = None, gasUsed = 21000, logsBloom = ''0x'', blockHash = ''0x03'',
       transactionHash = h, logs = ls, blockNumber = 1, confirmations = 1,
       cumulativeGasUsed = 21000, effectiveGasPrice = 1, byzantium = True, type' = 2,
       status = Some 1 \<rparr>"

text \<open>A receipt whose five log entries hold two message deliveries, numbered 5 and 7,
  between three unrelated entries (one of them without topics).\<close>

definition two_deliveries :: L1TransactionReceipt where
  "two_deliveries =
     receipt_with ''0xaa''
       [log_with [''Transfer'', ''0x01''],
        log_with [''InboxMessageDelivered'', ''0x05''],
        log_with [],
        log_with [''InboxMessageDeliveredFromOrigin'', ''0x07'', ''0x09''],
        log_with [''Approval'']]"

text \<open>Receipts with one message delivery and with none.\<close>

definition one_delivery :: L1TransactionReceipt where
  "one_delivery =
     receipt_with ''0xbb''
       [log_with [''InboxMessageDelivered'', ''0x2a''], log_with [''Transfer'', ''0x01'']]"

definition no_deliveries :: L1TransactionReceipt where
  "no_deliveries = receipt_with ''0xcc'' [log_with [''Transfer'', ''0x01''], log_with []]"

text \<open>
  A deposit entry is a log entry whose first topic is the deposit-initiated topic. Below,
  a receipt with one well-formed deposit entry between two other entries, and two receipts
  whose malformed deposit entry (it has one topic only) stands first, respectively second.
\<close>

definition is_deposit_initiated :: "('h, 'm, 'args) collaborators \<Rightarrow> Log \<Rightarrow> bool" where
  "is_deposit_initiated E log =
     (case topics log of [] \<Rightarrow> False | t # _ \<Rightarrow> t = DepositInitiated E)"

definition deposit_log :: Log where
  "deposit_log =
     \<lparr> topics = [''DepositInitiated'', ''0xf0'', ''0x70'', ''0x03''], log_data = ''0x64'',
       log_address = ''0x00'', logIndex = 0 \<rparr>"

definition one_deposit :: L1TransactionReceipt where
  "one_deposit =
     receipt_with ''0xdd''
       [log_with [''Transfer'', ''0xf0'', ''0x70'', ''0x03''], deposit_log,
        log_with [''InboxMessageDelivered'', ''0x03'']]"

definition bad_deposit_first :: L1TransactionReceipt where
  "bad_deposit_first = receipt_with ''0xd0'' [log_with [''DepositInitiated'']]"

definition bad_deposit_second :: L1TransactionReceipt where
  "bad_deposit_second =
     receipt_with ''0xd1'' [deposit_log, (log_with [''DepositInitiated''])\<lparr> logIndex := 1 \<rparr>]"

text \<open>A pending contract transaction whose \<^verbatim>\<open>wait\<close> times out for 64 confirmations.\<close>

definition pending :: "(TransactionReceipt, string) ContractTransaction" where
  "pending =
     \<lparr> wait = (\<lambda>confirmations.
                  if confirmations = Some 64 then Inl (Thrown ''timeout exceeded'')
                  else Inr one_deposit),
       others = ''0xdd'' \<rparr>"

section \<open>Properties\<close>

subsection \<open>Mapping a callback that may throw\<close>

text \<open>The call succeeds exactly when the callback succeeds on every element, and then
  yields the results in the order of the elements; it fails exactly with the exception of
  the first element on which the callback throws.\<close>

lemma map_throwing_Inr_D:
  "map_throwing f xs = Inr ys \<Longrightarrow> list_all2 (\<lambda>x y. f x = Inr y) xs ys"
proof (induction xs arbitrary: ys)
  case Nil
  then show ?case by simp
next
  case (Cons x xs)
  from Cons.prems obtain y zs where
    y: "f x = Inr y" and zs: "map_throwing f xs = Inr zs" and ys: "ys = y # zs"
    by (simp split: sum.splits)
  from Cons.IH [OF zs] y ys show ?case by simp
qed

lemma map_throwing_Inr_I:
  "list_all2 (\<lambda>x y. f x = Inr y) xs ys \<Longrightarrow> map_throwing f xs = Inr ys"
  by (induction xs ys rule: list_all2_induct) simp_all

lemma map_throwing_length: "map_throwing f xs = Inr ys \<Longrightarrow> length ys = length xs"
  using map_throwing_Inr_D [of f xs ys] by (simp add: list_all2_lengthD)

lemma map_throwing_append_Inl:
  "map_throwing f pre = Inr ys \<Longrightarrow> f x = Inl e \<Longrightarrow> map_throwing f (pre @ x # post) = Inl e"
proof (induction pre arbitrary: ys)
  case Nil
  then show ?case by simp
next
  case (Cons a pre)
  from Cons.prems(1) obtain y zs where
    y: "f a = Inr y" and zs: "map_throwing f pre = Inr zs"
    by (simp split: sum.splits)
  from Cons.IH [OF zs Cons.prems(2)] y show ?case by simp
qed

lemma map_throwing_Inl_D:
  "map_throwing f xs = Inl e \<Longrightarrow>
     \<exists>pre x post ys. xs = pre @ x # post \<and> map_throwing f pre = Inr ys \<and> f x = Inl e"
proof (induction xs)
  case Nil
  then show ?case by simp
next
  case (Cons a xs)
  show ?case
  proof (cases "f a")
    case (Inl e')
    with Cons.prems have "a # xs = [] @ a # xs \<and> map_throwing f [] = Inr [] \<and> f a = Inl e"
      by simp
    then show ?thesis by blast
  next
    case (Inr y)
    with Cons.prems have "map_throwing f xs = Inl e"
      by (simp split: sum.splits)
    from Cons.IH [OF this] obtain pre x post ys where
      "xs = pre @ x # post" and "map_throwing f pre = Inr ys" and "f x = Inl e"
      by blast
    with Inr have
      "a # xs = (a # pre) @ x # post \<and> map_throwing f (a # pre) = Inr (y # ys) \<and> f x = Inl e"
      by simp
    then show ?thesis by blast
  qed
qed

subsection \<open>Printing a number and reading it back\<close>

text \<open>
  The decimal string of a number has only decimal digits after its sign, and a reader of
  decimal strings, such as the \<open>demo_BigNumber_from\<close> of the instance, reads the string of
  every number back as that number. So distinct numbers print differently, and the
  assumption made below on \<^verbatim>\<open>BigNumber.from\<close> and the chain id can be met for every
  chain id.
\<close>

lemma digit_value_all: "list_all (\<lambda>n. digit_value (''0123456789'' ! n) = Some n) [0..<10]"
  by code_simp

lemma digit_value_nth:
  assumes "n < 10"
  shows "digit_value (''0123456789'' ! n) = Some n"
proof -
  from digit_value_all
  have all: "\<forall>k\<in>set [0..<10]. digit_value (''0123456789'' ! k) = Some k"
    by (simp only: list_all_iff)
  from assms have "n \<in> set [0..<10]" by simp
  with all show ?thesis by blast
qed

lemma digits_small: "n < 10 \<Longrightarrow> digits n = [''0123456789'' ! n]"
  by (simp add: digits.simps [of n])

lemma digits_large:
  "\<not> n < 10 \<Longrightarrow> digits n = digits (n div 10) @ [''0123456789'' ! (n mod 10)]"
  by (simp add: digits.simps [of n])

lemma read_digits_append:
  "read_digits b (xs @ ys) acc =
     (case read_digits b xs acc of None \<Rightarrow> None | Some a \<Rightarrow> read_digits b ys a)"
proof (induction xs arbitrary: acc)
  case Nil
  show ?case by simp
next
  case (Cons c cs)
  show ?case
  proof (cases "digit_value c")
    case None
    then show ?thesis by simp
  next
    case (Some d)
    then show ?thesis using Cons.IH [of "acc * b + d"] by (cases "d < b") simp_all
  qed
qed

lemma digits_not_empty: "digits n \<noteq> []"
proof (cases "n < 10")
  case True
  show ?thesis by (simp only: digits_small [OF True]) simp
next
  case False
  show ?thesis by (simp only: digits_large [OF False]) simp
qed

lemma read_digits_Some_chars:
  "read_digits b xs acc = Some r \<Longrightarrow> c \<in> set xs \<Longrightarrow> digit_value c \<noteq> None"
proof (induction xs arbitrary: acc)
  case Nil
  then show ?case by simp
next
  case (Cons a xs)
  from Cons.prems(1) obtain d where
    d: "digit_value a = Some d" and r: "read_digits b xs (acc * b + d) = Some r"
    by (cases "digit_value a") (simp_all split: if_splits)
  from Cons.prems(2) have "c = a \<or> c \<in> set xs" by simp
  then show ?case
  proof
    assume "c = a"
    with d show ?thesis by simp
  next
    assume "c \<in> set xs"
    with Cons.IH [OF r] show ?thesis .
  qed
qed
lemma read_digits_digits: "read_digits 10 (digits n) 0 = Some n"
proof (induction n rule: digits.induct)
  case (1 n)
  show ?case
  proof (cases "n < 10")
    case True
    have "read_digits 10 [''0123456789'' ! n] 0 = Some n"
      using digit_value_nth [OF True] True
      by (simp only: read_digits.simps option.case) simp
    then show ?thesis by (simp only: digits_small [OF True])
  next
    case False
    have m: "n mod 10 < 10" by simp
    have "read_digits 10 (digits n) 0 = read_digits 10 [''0123456789'' ! (n mod 10)] (n div 10)"
      using "1.IH" [OF False] by (simp only: digits_large [OF False] read_digits_append option.case)
    also have "\<dots> = Some (n div 10 * 10 + n mod 10)"
      using digit_value_nth [OF m] m
      by (simp only: read_digits.simps option.case) simp
    also have "\<dots> = Some n" by simp
    finally show ?thesis .
  qed
qed

lemma digits_no_sign: "CHR ''-'' \<notin> set (digits n)"
proof
  assume "CHR ''-'' \<in> set (digits n)"
  from read_digits_Some_chars [OF read_digits_digits this]
  show False by (simp add: digit_value_def)
qed

lemma digits_no_x: "CHR ''x'' \<notin> set (digits n)"
proof
  assume "CHR ''x'' \<in> set (digits n)"
  from read_digits_Some_chars [OF read_digits_digits this]
  show False by (simp add: digit_value_def)
qed

lemma digits_not_hex: "take 2 (digits n) \<noteq> ''0x''"
proof
  assume "take 2 (digits n) = ''0x''"
  then have "CHR ''x'' \<in> set (take 2 (digits n))" by simp
  then have "CHR ''x'' \<in> set (digits n)" by (rule in_set_takeD)
  with digits_no_x show False by blast
qed

lemma hd_digits_no_sign: "hd (digits n) \<noteq> CHR ''-''"
proof
  assume "hd (digits n) = CHR ''-''"
  with hd_in_set [OF digits_not_empty, of n] have "CHR ''-'' \<in> set (digits n)" by simp
  with digits_no_sign show False by blast
qed

lemma demo_BigNumber_from_negative:
  assumes "ds \<noteq> []" and "read_digits 10 ds 0 = Some n"
  shows "demo_BigNumber_from (Some (CHR ''-'' # ds)) = Inr (- int n)"
proof -
  have a: "take 2 (CHR ''-'' # ds) \<noteq> ''0x''"
    by (cases ds) simp_all
  have b: "CHR ''-'' # ds \<noteq> []" by simp
  have c: "hd (CHR ''-'' # ds) = CHR ''-'' \<and> tl (CHR ''-'' # ds) \<noteq> []"
    using assms(1) by simp
  have d: "read_digits 10 (tl (CHR ''-'' # ds)) 0 = Some n"
    using assms(2) by simp
  show ?thesis
    unfolding demo_BigNumber_from_def option.case if_not_P [OF a] if_not_P [OF b] if_P [OF c] d
    by simp
qed

lemma demo_BigNumber_from_natural:
  assumes "ds \<noteq> []" and "take 2 ds \<noteq> ''0x''" and "hd ds \<noteq> CHR ''-''"
    and "read_digits 10 ds 0 = Some n"
  shows "demo_BigNumber_from (Some ds) = Inr (int n)"
proof -
  have c: "\<not> (hd ds = CHR ''-'' \<and> tl ds \<noteq> [])"
    using assms(3) by simp
  show ?thesis
    unfolding demo_BigNumber_from_def option.case if_not_P [OF assms(2)] if_not_P [OF assms(1)]
      if_not_P [OF c] assms(4)
    by simp
qed

lemma demo_BigNumber_from_toString: "demo_BigNumber_from (Some (Number_toString i)) = Inr i"
proof (cases "i < 0")
  case True
  then have s: "Number_toString i = CHR ''-'' # digits (nat (- i))"
    unfolding Number_toString_def by (rule if_P)
  from True have v: "- int (nat (- i)) = i" by simp
  from demo_BigNumber_from_negative [OF digits_not_empty read_digits_digits, of "nat (- i)"]
  show ?thesis unfolding s v .
next
  case False
  then have s: "Number_toString i = digits (nat i)"
    unfolding Number_toString_def by (rule if_not_P)
  from False have v: "int (nat i) = i" by simp
  from demo_BigNumber_from_natural
    [OF digits_not_empty digits_not_hex hd_digits_no_sign read_digits_digits, of "nat i"]
  show ?thesis unfolding s v .
qed

lemma Number_toString_inject:
  assumes "Number_toString i = Number_toString j"
  shows "i = j"
proof -
  have "Inr i = demo_BigNumber_from (Some (Number_toString i))"
    by (simp only: demo_BigNumber_from_toString)
  also have "\<dots> = demo_BigNumber_from (Some (Number_toString j))"
    by (simp only: assms)
  also have "\<dots> = Inr j"
    by (simp only: demo_BigNumber_from_toString)
  finally show ?thesis by simp
qed

subsection \<open>The constructor\<close>

text \<open>
  Claim C8. Constructing an \<^verbatim>\<open>L1TransactionReceipt\<close> from a raw receipt copies every
  field: each of the seventeen fields of the constructed value equals the field of the
  same name of the input. The constructor is a total function of the raw receipt alone:
  it throws nothing and calls no chain. The fields are \<^verbatim>\<open>readonly\<close>, and no method of
  the class returns a changed receipt: every method below takes the receipt as an
  argument and yields only its own result.
\<close>

theorem L1TransactionReceipt_copies_every_field:
  "to (L1TransactionReceipt tx) = to tx \<and>
   from' (L1TransactionReceipt tx) = from' tx \<and>
   contractAddress (L1TransactionReceipt tx) = contractAddress tx \<and>
   transactionIndex (L1TransactionReceipt tx) = transactionIndex tx \<and>
   root (L1TransactionReceipt tx) = root tx \<and>
   gasUsed (L1TransactionReceipt tx) = gasUsed tx \<and>
   logsBloom (L1TransactionReceipt tx) = logsBloom tx \<and>
   blockHash (L1TransactionReceipt tx) = blockHash tx \<and>
   transactionHash (L1TransactionReceipt tx) = transactionHash tx \<and>
   logs (L1TransactionReceipt tx) = logs tx \<and>
   blockNumber (L1TransactionReceipt tx) = blockNumber tx \<and>
   confirmations (L1TransactionReceipt tx) = confirmations tx \<and>
   cumulativeGasUsed (L1TransactionReceipt tx) = cumulativeGasUsed tx \<and>
   effectiveGasPrice (L1TransactionReceipt tx) = effectiveGasPrice tx \<and>
   byzantium (L1TransactionReceipt tx) = byzantium tx \<and>
   type' (L1TransactionReceipt tx) = type' tx \<and>
   status (L1TransactionReceipt tx) = status tx"
  by (simp add: L1TransactionReceipt_def)

theorem L1TransactionReceipt_copies_every_field_witness:
  "transactionHash (L1TransactionReceipt (receipt_with ''0xaa'' [log_with [''Transfer'']])) = ''0xaa'' \<and>
   logs (L1TransactionReceipt (receipt_with ''0xaa'' [log_with [''Transfer'']])) = [log_with [''Transfer'']] \<and>
   status (L1TransactionReceipt (receipt_with ''0xaa'' [log_with [''Transfer'']])) = Some 1"
  using L1TransactionReceipt_copies_every_field [of "receipt_with ''0xaa'' [log_with [''Transfer'']]"]
  by (simp add: receipt_with_def)

text \<open>Wrapping a receipt that is already wrapped changes nothing.\<close>

lemma L1TransactionReceipt_idem: "L1TransactionReceipt (r :: L1TransactionReceipt) = r"
  by (simp add: L1TransactionReceipt_def)

subsection \<open>Message numbers\<close>

lemma js_index_0: "js_index xs 0 = (case xs of [] \<Rightarrow> None | x # _ \<Rightarrow> Some x)"
  by (cases xs) (simp_all add: js_index_def)

lemma topic0_is_message_delivery:
  "(js_index (topics log) 0 = Some (InboxMessageDelivered E) \<or>
    js_index (topics log) 0 = Some (InboxMessageDeliveredFromOrigin E)) =
   is_message_delivery E log"
  by (cases "topics log") (simp_all add: js_index_0 is_message_delivery_def)

lemma getMessageNumbers_filter_map:
  "getMessageNumbers E this =
     map_throwing (\<lambda>log. BigNumber_from E (js_index (topics log) 1))
       (filter (is_message_delivery E) (logs this))"
  by (simp add: getMessageNumbers_def topic0_is_message_delivery)

lemma delivered_numbers_imp_map:
  "delivered_numbers E ls ns \<Longrightarrow>
     map_throwing (\<lambda>log. BigNumber_from E (js_index (topics log) 1))
       (filter (is_message_delivery E) ls) = Inr ns"
  by (induction rule: delivered_numbers.induct) simp_all

lemma map_imp_delivered_numbers:
  "map_throwing (\<lambda>log. BigNumber_from E (js_index (topics log) 1))
       (filter (is_message_delivery E) ls) = Inr ns \<Longrightarrow> delivered_numbers E ls ns"
proof (induction ls arbitrary: ns)
  case Nil
  then show ?case by (simp add: delivered_numbers.no_logs)
next
  case (Cons log ls)
  show ?case
  proof (cases "is_message_delivery E log")
    case False
    with Cons.prems Cons.IH show ?thesis by (simp add: delivered_numbers.unrelated)
  next
    case True
    with Cons.prems obtain n ms where
      n: "BigNumber_from E (js_index (topics log) 1) = Inr n" and
      ms: "map_throwing (\<lambda>log. BigNumber_from E (js_index (topics log) 1))
             (filter (is_message_delivery E) ls) = Inr ms" and
      ns: "ns = n # ms"
      by (simp split: sum.splits)
    from Cons.IH [OF ms] True n ns show ?thesis by (simp add: delivered_numbers.delivery)
  qed
qed

text \<open>
  Claim C2. \<^verbatim>\<open>getMessageNumbers\<close> returns the numbers \<open>ns\<close> exactly when \<open>ns\<close> are the
  numbers the receipt's log entries deliver: one value for each entry whose first topic
  is the \<^verbatim>\<open>InboxMessageDelivered\<close> or the \<^verbatim>\<open>InboxMessageDeliveredFromOrigin\<close> topic,
  that value being the integer decoded from the entry's second topic, in the order in
  which the entries stand in the logs, and nothing for an unrelated entry. With \<open>k\<close>
  such entries among the logs it returns \<open>k\<close> values. The method is a function of the
  receipt alone, so it calls no chain, and nothing reorders the values.
\<close>

theorem getMessageNumbers_extracts_in_log_order:
  "(getMessageNumbers E this = Inr ns \<longleftrightarrow> delivered_numbers E (logs this) ns) \<and>
   (delivered_numbers E (logs this) ns \<longrightarrow>
      length ns = length (filter (is_message_delivery E) (logs this)))"
proof -
  have a: "getMessageNumbers E this = Inr ns \<longleftrightarrow> delivered_numbers E (logs this) ns"
    using delivered_numbers_imp_map [of E "logs this" ns]
      map_imp_delivered_numbers [of E "logs this" ns]
    by (auto simp only: getMessageNumbers_filter_map)
  have b: "length ns = length (filter (is_message_delivery E) (logs this))"
    if "delivered_numbers E (logs this) ns"
    using delivered_numbers_imp_map [OF that] by (rule map_throwing_length)
  from a b show ?thesis by blast
qed

lemma two_deliveries_numbers: "delivered_numbers demo (logs two_deliveries) [5, 7]"
  unfolding two_deliveries_def receipt_with_def
  apply simp
  apply (rule delivered_numbers.unrelated)
   apply (simp add: is_message_delivery_def demo_def log_with_def)
  apply (rule delivered_numbers.delivery)
    apply (simp add: is_message_delivery_def demo_def log_with_def)
   apply (simp add: demo_def log_with_def js_index_def demo_BigNumber_from_def digit_value_def)
  apply (rule delivered_numbers.unrelated)
   apply (simp add: is_message_delivery_def demo_def log_with_def)
  apply (rule delivered_numbers.delivery)
    apply (simp add: is_message_delivery_def demo_def log_with_def)
   apply (simp add: demo_def log_with_def js_index_def demo_BigNumber_from_def digit_value_def)
  apply (rule delivered_numbers.unrelated)
   apply (simp add: is_message_delivery_def demo_def log_with_def)
  apply (rule delivered_numbers.no_logs)
  done

theorem getMessageNumbers_extracts_in_log_order_witness:
  "delivered_numbers demo (logs two_deliveries) [5, 7] \<and>
   getMessageNumbers demo two_deliveries = Inr [5, 7] \<and>
   length (logs two_deliveries) = 5 \<and>
   length (filter (is_message_delivery demo) (logs two_deliveries)) = 2"
  using getMessageNumbers_extracts_in_log_order [of demo two_deliveries "[5, 7]"]
    two_deliveries_numbers
  by (simp add: two_deliveries_def receipt_with_def)

text \<open>A message-delivery entry whose second topic does not decode makes the method throw
  what \<^verbatim>\<open>BigNumber.from\<close> throws; well-formed receipts have no such entry.\<close>

lemma getMessageNumbers_throws:
  assumes "logs this = pre @ log # post"
    and "delivered_numbers E pre ns"
    and "is_message_delivery E log"
    and "BigNumber_from E (js_index (topics log) 1) = Inl e"
  shows "getMessageNumbers E this = Inl e"
proof -
  have "filter (is_message_delivery E) (logs this) =
          filter (is_message_delivery E) pre @ log # filter (is_message_delivery E) post"
    using assms(1,3) by simp
  with delivered_numbers_imp_map [OF assms(2)] assms(4) show ?thesis
    by (simp add: getMessageNumbers_filter_map map_throwing_append_Inl)
qed

lemma no_delivery_no_numbers:
  "filter (is_message_delivery E) (logs this) = [] \<Longrightarrow> getMessageNumbers E this = Inr []"
  by (simp add: getMessageNumbers_filter_map)

subsection \<open>Messages\<close>

lemma map_throwing_total: "map_throwing (\<lambda>x. Inr (g x)) xs = Inr (map g xs)"
  by (induction xs) simp_all

text \<open>The resolution of the provider and of the chain id come first, and their failure is
  the failure of the call.\<close>

lemma getL1ToL2Messages_provider_throws:
  "getProviderOrThrow E h = Inl e \<Longrightarrow> getL1ToL2Messages E this h = ([], Inl e)"
  by (simp add: getL1ToL2Messages_def)

lemma getL1ToL2Messages_network_rejects:
  "getProviderOrThrow E h = Inr provider \<Longrightarrow> getNetwork provider = Inl e \<Longrightarrow>
     getL1ToL2Messages E this h = ([GetNetwork], Inl e)"
  by (simp add: getL1ToL2Messages_def)

text \<open>Evaluations on the instance.\<close>

lemma Number_toString_42161: "Number_toString 42161 = ''42161''"
  by (simp add: Number_toString_def digits.simps)

lemma demo_BigNumber_from_42161: "demo_BigNumber_from (Some ''42161'') = Inr 42161"
  by (simp add: demo_BigNumber_from_def digit_value_def)

lemma two_deliveries_messages:
  "getL1ToL2Messages demo two_deliveries (ProviderHandle arb1) =
     ([GetNetwork],
      Inr [L1ToL2MessageReader (ProviderHandle arb1) ''ticket/42161/5'' 5,
           L1ToL2MessageReader (ProviderHandle arb1) ''ticket/42161/7'' 7])"
proof -
  have n: "getMessageNumbers demo two_deliveries = Inr [5, 7]"
    by (simp add: getMessageNumbers_def two_deliveries_def receipt_with_def log_with_def
        demo_def js_index_def demo_BigNumber_from_def digit_value_def)
  have p: "getProviderOrThrow demo (ProviderHandle arb1) = Inr arb1"
    by (simp add: demo_def demo_getProviderOrThrow_def)
  have c: "getNetwork arb1 = Inr \<lparr> chainId = 42161 \<rparr>"
    by (simp add: arb1_def)
  have b: "BigNumber_from demo (Some ''42161'') = Inr 42161"
    using demo_BigNumber_from_42161 by (simp add: demo_def)
  have t5: "Number_toString 5 = ''5''" and t7: "Number_toString 7 = ''7''"
    by (simp_all add: Number_toString_def digits.simps)
  have k: "calculateRetryableCreationId demo 42161 5 = ''ticket/42161/5''"
    "calculateRetryableCreationId demo 42161 7 = ''ticket/42161/7''"
    using Number_toString_42161 t5 t7 by (simp_all add: demo_def)
  have f: "fromRetryableCreationId demo (ProviderHandle arb1) s x =
             L1ToL2MessageReader (ProviderHandle arb1) s x" for s x
    by (simp add: demo_def demo_fromRetryableCreationId_def)
  show ?thesis
    by (simp add: getL1ToL2Messages_def n p c b k f Number_toString_42161)
qed

lemma one_delivery_messages:
  "getL1ToL2Messages demo one_delivery (ProviderHandle arb1) =
     ([GetNetwork], Inr [L1ToL2MessageReader (ProviderHandle arb1) ''ticket/42161/42'' 42])"
proof -
  have n: "getMessageNumbers demo one_delivery = Inr [42]"
    by (simp add: getMessageNumbers_def one_delivery_def receipt_with_def log_with_def
        demo_def js_index_def demo_BigNumber_from_def digit_value_def)
  have p: "getProviderOrThrow demo (ProviderHandle arb1) = Inr arb1"
    by (simp add: demo_def demo_getProviderOrThrow_def)
  have c: "getNetwork arb1 = Inr \<lparr> chainId = 42161 \<rparr>"
    by (simp add: arb1_def)
  have b: "BigNumber_from demo (Some ''42161'') = Inr 42161"
    using demo_BigNumber_from_42161 by (simp add: demo_def)
  have t: "Number_toString 42 = ''42''"
    by (simp add: Number_toString_def digits.simps)
  have k: "calculateRetryableCreationId demo 42161 42 = ''ticket/42161/42''"
    using Number_toString_42161 t by (simp add: demo_def)
  have f: "fromRetryableCreationId demo (ProviderHandle arb1) s x =
             L1ToL2MessageReader (ProviderHandle arb1) s x" for s x
    by (simp add: demo_def demo_fromRetryableCreationId_def)
  show ?thesis
    by (simp add: getL1ToL2Messages_def n p c b k f Number_toString_42161)
qed

lemma no_deliveries_messages:
  "getL1ToL2Messages demo no_deliveries (ProviderHandle arb1) = ([GetNetwork], Inr [])"
  by (simp add: getL1ToL2Messages_def getMessageNumbers_def no_deliveries_def receipt_with_def
      log_with_def demo_def js_index_def demo_getProviderOrThrow_def arb1_def)

text \<open>
  Claim C5. Given a handle that has a provider whose network lookup answers, a receipt
  whose message numbers are \<open>ns\<close>, and a \<^verbatim>\<open>BigNumber.from\<close> that reads the decimal
  string of the chain id back as the chain id, \<^verbatim>\<open>getL1ToL2Messages\<close> makes the one
  network call and returns one message for each number of \<open>ns\<close>, in the same order: the
  message built by \<^verbatim>\<open>fromRetryableCreationId\<close> from the handle, the identifier that
  \<^verbatim>\<open>calculateRetryableCreationId\<close> computes from the chain id and the number, and the
  number. The result is as long as the result of \<^verbatim>\<open>getMessageNumbers\<close>.
\<close>

theorem getL1ToL2Messages_one_per_number:
  assumes "getProviderOrThrow E l2SignerOrProvider = Inr provider"
    and "getNetwork provider = Inr network"
    and "getMessageNumbers E this = Inr ns"
    and "BigNumber_from E (Some (Number_toString (chainId network))) = Inr (chainId network)"
  shows "\<exists>ms. getL1ToL2Messages E this l2SignerOrProvider = ([GetNetwork], Inr ms) \<and>
           ms = map (\<lambda>mn. fromRetryableCreationId E l2SignerOrProvider
                            (calculateRetryableCreationId E (chainId network) mn) mn) ns \<and>
           length ms = length ns"
  using assms by (cases ns) (simp_all add: getL1ToL2Messages_def map_throwing_total)

theorem getL1ToL2Messages_one_per_number_witness:
  "getProviderOrThrow demo (ProviderHandle arb1) = Inr arb1 \<and>
   getNetwork arb1 = Inr \<lparr> chainId = 42161 \<rparr> \<and>
   getMessageNumbers demo two_deliveries = Inr [5, 7] \<and>
   BigNumber_from demo (Some (Number_toString 42161)) = Inr 42161 \<and>
   getL1ToL2Messages demo two_deliveries (ProviderHandle arb1) =
     ([GetNetwork],
      Inr [fromRetryableCreationId demo (ProviderHandle arb1)
             (calculateRetryableCreationId demo 42161 5) 5,
           fromRetryableCreationId demo (ProviderHandle arb1)
             (calculateRetryableCreationId demo 42161 7) 7])"
proof -
  have p: "getProviderOrThrow demo (ProviderHandle arb1) = Inr arb1"
    by (simp add: demo_def demo_getProviderOrThrow_def)
  have c: "getNetwork arb1 = Inr \<lparr> chainId = 42161 \<rparr>"
    by (simp add: arb1_def)
  have n: "getMessageNumbers demo two_deliveries = Inr [5, 7]"
    by (simp add: getMessageNumbers_def two_deliveries_def receipt_with_def log_with_def
        demo_def js_index_def demo_BigNumber_from_def digit_value_def)
  have b: "BigNumber_from demo (Some (Number_toString (chainId \<lparr> chainId = 42161 \<rparr>))) =
             Inr (chainId \<lparr> chainId = 42161 \<rparr>)"
    using demo_BigNumber_from_42161 Number_toString_42161 by (simp add: demo_def)
  from getL1ToL2Messages_one_per_number [OF p c n b] p c n b show ?thesis by simp
qed

text \<open>
  Claim C4. For a receipt without message-delivery entries, and a handle that has a
  provider whose network lookup answers, \<^verbatim>\<open>getL1ToL2Messages\<close> returns the empty
  sequence: no message-delivery entry is a success, not an error.
\<close>

theorem getL1ToL2Messages_empty_is_success:
  assumes "getProviderOrThrow E l2SignerOrProvider = Inr provider"
    and "getNetwork provider = Inr network"
    and "filter (is_message_delivery E) (logs this) = []"
  shows "getL1ToL2Messages E this l2SignerOrProvider = ([GetNetwork], Inr [])"
  using assms(1,2) no_delivery_no_numbers [OF assms(3)]
  by (simp add: getL1ToL2Messages_def)

theorem getL1ToL2Messages_empty_is_success_witness:
  "getProviderOrThrow demo (SignerHandle (Some arb1)) = Inr arb1 \<and>
   getNetwork arb1 = Inr \<lparr> chainId = 42161 \<rparr> \<and>
   filter (is_message_delivery demo) (logs no_deliveries) = [] \<and>
   getL1ToL2Messages demo no_deliveries (SignerHandle (Some arb1)) = ([GetNetwork], Inr [])"
proof -
  have p: "getProviderOrThrow demo (SignerHandle (Some arb1)) = Inr arb1"
    by (simp add: demo_def demo_getProviderOrThrow_def)
  have c: "getNetwork arb1 = Inr \<lparr> chainId = 42161 \<rparr>"
    by (simp add: arb1_def)
  have f: "filter (is_message_delivery demo) (logs no_deliveries) = []"
    by (simp add: no_deliveries_def receipt_with_def log_with_def is_message_delivery_def demo_def)
  from getL1ToL2Messages_empty_is_success [OF p c f] p c f show ?thesis by simp
qed

subsection \<open>A single message\<close>

lemma getL1ToL2Messages_throws:
  "getL1ToL2Messages E this h = (calls, Inl e) \<Longrightarrow>
     getL1ToL2Message E this h messageIndex = (calls, Inl e)"
  by (simp add: getL1ToL2Message_def Let_def)

text \<open>
  Claim C3. When \<^verbatim>\<open>getL1ToL2Messages\<close> yields the messages \<open>msgs\<close>,
  \<^verbatim>\<open>getL1ToL2Message\<close> branches as follows, making no further call:
  \<^item> no message: it throws the \<^verbatim>\<open>ArbTsError\<close> that no message was found, whose text
    ends with the transaction hash (the specification's \<open>NoMessageFound\<close>);
  \<^item> some message and an index at or beyond their number: it throws the
    \<^verbatim>\<open>ArbTsError\<close> that the index is out of range, whose text holds the hash, the index
    and the number of messages (\<open>IndexOutOfRange\<close>);
  \<^item> no index and more than one message: it throws the \<^verbatim>\<open>ArbTsError\<close> whose text
    holds the number of messages and the hash and asks for a \<^verbatim>\<open>messageNumberIndex\<close>
    (\<open>AmbiguousMessageCount\<close>);
  \<^item> no index and one message: it returns that message;
  \<^item> an index from 0 up to the number of messages, excluded: it returns the message at
    that index.
\<close>

theorem getL1ToL2Message_branches:
  assumes "getL1ToL2Messages E this h = (calls, Inr msgs)"
  shows
    "(msgs = [] \<longrightarrow>
        getL1ToL2Message E this h messageIndex =
          (calls, Inl (ArbTsError (''No l1 to L2 message found for '' @ transactionHash this)))) \<and>
     (msgs \<noteq> [] \<and> int (length msgs) \<le> i \<longrightarrow>
        getL1ToL2Message E this h (Some i) =
          (calls, Inl (ArbTsError
             (''Provided message number out of range for '' @ transactionHash this @
              ''; index was '' @ Number_toString i @
              '', but only '' @ Number_toString (int (length msgs)) @ '' messages'')))) \<and>
     (1 < length msgs \<longrightarrow>
        getL1ToL2Message E this h None =
          (calls, Inl (ArbTsError
             (Number_toString (int (length msgs)) @ '' L2 messages for '' @ transactionHash this @
              ''; must provide messageNumberIndex (or use (signersAndProviders, l1Txn))'')))) \<and>
     (msgs = [m] \<longrightarrow> getL1ToL2Message E this h None = (calls, Inr (Some m))) \<and>
     (0 \<le> i \<and> i < int (length msgs) \<longrightarrow>
        getL1ToL2Message E this h (Some i) = (calls, Inr (Some (msgs ! nat i))))"
proof -
  have zero: "getL1ToL2Message E this h messageIndex =
      (calls, Inl (ArbTsError (''No l1 to L2 message found for '' @ transactionHash this)))"
    if "msgs = []"
    using assms that by (simp add: getL1ToL2Message_def Let_def)
  have range: "getL1ToL2Message E this h (Some i) =
      (calls, Inl (ArbTsError
         (''Provided message number out of range for '' @ transactionHash this @
          ''; index was '' @ Number_toString i @
          '', but only '' @ Number_toString (int (length msgs)) @ '' messages'')))"
    if "msgs \<noteq> []" and "int (length msgs) \<le> i"
    using assms that by (simp add: getL1ToL2Message_def Let_def)
  have ambiguous: "getL1ToL2Message E this h None =
      (calls, Inl (ArbTsError
         (Number_toString (int (length msgs)) @ '' L2 messages for '' @ transactionHash this @
          ''; must provide messageNumberIndex (or use (signersAndProviders, l1Txn))'')))"
    if "1 < length msgs"
    using assms that by (auto simp add: getL1ToL2Message_def Let_def)
  have single: "getL1ToL2Message E this h None = (calls, Inr (Some m))" if "msgs = [m]"
    using assms that by (simp add: getL1ToL2Message_def Let_def or_zero_def js_index_def)
  have indexed: "getL1ToL2Message E this h (Some i) = (calls, Inr (Some (msgs ! nat i)))"
    if "0 \<le> i" and "i < int (length msgs)"
    using assms that by (auto simp add: getL1ToL2Message_def Let_def or_zero_def js_index_def)
  from zero range ambiguous single indexed show ?thesis by blast
qed

theorem getL1ToL2Message_branches_witness:
  "getL1ToL2Message demo no_deliveries (ProviderHandle arb1) None =
     ([GetNetwork], Inl (ArbTsError ''No l1 to L2 message found for 0xcc'')) \<and>
   getL1ToL2Message demo two_deliveries (ProviderHandle arb1) (Some 5) =
     ([GetNetwork], Inl (ArbTsError
        ''Provided message number out of range for 0xaa; index was 5, but only 2 messages'')) \<and>
   getL1ToL2Message demo two_deliveries (ProviderHandle arb1) None =
     ([GetNetwork], Inl (ArbTsError
        ''2 L2 messages for 0xaa; must provide messageNumberIndex (or use (signersAndProviders, l1Txn))'')) \<and>
   getL1ToL2Message demo one_delivery (ProviderHandle arb1) None =
     ([GetNetwork], Inr (Some (L1ToL2MessageReader (ProviderHandle arb1) ''ticket/42161/42'' 42))) \<and>
   getL1ToL2Message demo two_deliveries (ProviderHandle arb1) (Some 1) =
     ([GetNetwork], Inr (Some (L1ToL2MessageReader (ProviderHandle arb1) ''ticket/42161/7'' 7)))"
proof -
  have t2: "Number_toString 2 = ''2''" and t5: "Number_toString 5 = ''5''"
    by (simp_all add: Number_toString_def digits.simps)
  have h0: "transactionHash no_deliveries = ''0xcc''"
    and h2: "transactionHash two_deliveries = ''0xaa''"
    by (simp_all add: no_deliveries_def two_deliveries_def receipt_with_def)
  note zero = getL1ToL2Message_branches [OF no_deliveries_messages,
      where messageIndex = None and i = 0 and m = undefined]
  note out = getL1ToL2Message_branches [OF two_deliveries_messages,
      where messageIndex = None and i = 5 and m = undefined]
  note one = getL1ToL2Message_branches [OF one_delivery_messages,
      where messageIndex = None and i = 0 and
        m = "L1ToL2MessageReader (ProviderHandle arb1) ''ticket/42161/42'' 42"]
  note second = getL1ToL2Message_branches [OF two_deliveries_messages,
      where messageIndex = None and i = 1 and m = undefined]
  from zero h0 have a: "getL1ToL2Message demo no_deliveries (ProviderHandle arb1) None =
     ([GetNetwork], Inl (ArbTsError ''No l1 to L2 message found for 0xcc''))"
    by simp
  from out h2 t2 t5 have b: "getL1ToL2Message demo two_deliveries (ProviderHandle arb1) (Some 5) =
     ([GetNetwork], Inl (ArbTsError
        ''Provided message number out of range for 0xaa; index was 5, but only 2 messages''))"
    by simp
  from out h2 t2 have c: "getL1ToL2Message demo two_deliveries (ProviderHandle arb1) None =
     ([GetNetwork], Inl (ArbTsError
        ''2 L2 messages for 0xaa; must provide messageNumberIndex (or use (signersAndProviders, l1Txn))''))"
    by simp
  from one have d: "getL1ToL2Message demo one_delivery (ProviderHandle arb1) None =
     ([GetNetwork], Inr (Some (L1ToL2MessageReader (ProviderHandle arb1) ''ticket/42161/42'' 42)))"
    by simp
  from second have e: "getL1ToL2Message demo two_deliveries (ProviderHandle arb1) (Some 1) =
     ([GetNetwork], Inr (Some (L1ToL2MessageReader (ProviderHandle arb1) ''ticket/42161/7'' 7)))"
    by simp
  from a b c d e show ?thesis by blast
qed

text \<open>
  Claim C10. With at least one message and a negative index, \<^verbatim>\<open>getL1ToL2Message\<close>
  throws none of the three errors: the range check compares the index with the number of
  messages from above only, and indexing the array at a negative index selects no
  element, so the call resolves to \<^verbatim>\<open>undefined\<close>.
\<close>

theorem getL1ToL2Message_negative_index:
  assumes "getL1ToL2Messages E this h = (calls, Inr msgs)"
    and "msgs \<noteq> []"
    and "i < 0"
  shows "getL1ToL2Message E this h (Some i) = (calls, Inr None)"
  using assms by (simp add: getL1ToL2Message_def Let_def or_zero_def js_index_def)

theorem getL1ToL2Message_negative_index_witness:
  "getL1ToL2Messages demo two_deliveries (ProviderHandle arb1) =
     ([GetNetwork],
      Inr [L1ToL2MessageReader (ProviderHandle arb1) ''ticket/42161/5'' 5,
           L1ToL2MessageReader (ProviderHandle arb1) ''ticket/42161/7'' 7]) \<and>
   (- 1 :: int) < 0 \<and>
   getL1ToL2Message demo two_deliveries (ProviderHandle arb1) (Some (- 1)) =
     ([GetNetwork], Inr None)"
  using getL1ToL2Message_negative_index [OF two_deliveries_messages, of "- 1"]
    two_deliveries_messages
  by simp

subsection \<open>Deposit events\<close>

lemma topic0_is_deposit_initiated:
  "(js_index (topics log) 0 = Some (DepositInitiated E)) = is_deposit_initiated E log"
  by (cases "topics log") (simp_all add: js_index_0 is_deposit_initiated_def)

lemma getDepositEvents_filter_map:
  "getDepositEvents E this =
     map_throwing (parseLog_args E) (filter (is_deposit_initiated E) (logs this))"
  by (simp add: getDepositEvents_def topic0_is_deposit_initiated)

text \<open>Evaluations on the instance.\<close>

lemma one_deposit_filtered: "filter (is_deposit_initiated demo) (logs one_deposit) = [deposit_log]"
  by (simp add: one_deposit_def receipt_with_def log_with_def deposit_log_def
      is_deposit_initiated_def demo_def)

lemma deposit_log_args:
  "parseLog_args demo deposit_log = Inr [''0xf0'', ''0x70'', ''0x03'', ''0x64'']"
  by (simp add: demo_def demo_parseLog_args_def deposit_log_def)

lemma bad_deposit_second_filtered:
  "filter (is_deposit_initiated demo) (logs bad_deposit_second) =
     [deposit_log] @ (log_with [''DepositInitiated''])\<lparr> logIndex := 1 \<rparr> # []"
  by (simp add: bad_deposit_second_def receipt_with_def log_with_def deposit_log_def
      is_deposit_initiated_def demo_def)

lemma bad_deposit_log_throws:
  "parseLog_args demo ((log_with [''DepositInitiated''])\<lparr> logIndex := 1 \<rparr>) =
     Inl (Thrown ''topic count mismatch'')"
  by (simp add: demo_def demo_parseLog_args_def log_with_def)

text \<open>
  Claim C6, as the code has it. \<^verbatim>\<open>getDepositEvents\<close> returns \<open>args\<close> exactly when
  \<open>args\<close> are the decoded arguments of the deposit entries of the receipt, one for each
  entry whose first topic is the \<^verbatim>\<open>DepositInitiated\<close> topic, in log order; an entry
  with another first topic is not handed to the decoder. It is a function of the receipt
  alone and calls no chain. It fails exactly when the decoder throws on a deposit entry
  all of whose predecessors decode, and then with the decoder's own exception, as it is:
  the method catches nothing, wraps nothing and adds no index.
\<close>

theorem getDepositEvents_decodes_deposit_logs:
  "(getDepositEvents E this = Inr args \<longleftrightarrow>
      list_all2 (\<lambda>log a. parseLog_args E log = Inr a)
        (filter (is_deposit_initiated E) (logs this)) args) \<and>
   (getDepositEvents E this = Inl e \<longleftrightarrow>
      (\<exists>pre log post decoded.
          filter (is_deposit_initiated E) (logs this) = pre @ log # post \<and>
          list_all2 (\<lambda>log a. parseLog_args E log = Inr a) pre decoded \<and>
          parseLog_args E log = Inl e))"
proof -
  let ?ls = "filter (is_deposit_initiated E) (logs this)"
  have ok: "getDepositEvents E this = Inr args \<longleftrightarrow>
      list_all2 (\<lambda>log a. parseLog_args E log = Inr a) ?ls args"
    using map_throwing_Inr_D [of "parseLog_args E" ?ls args]
      map_throwing_Inr_I [of "parseLog_args E" ?ls args]
    by (auto simp only: getDepositEvents_filter_map)
  have fails: "\<exists>pre log post decoded. ?ls = pre @ log # post \<and>
      list_all2 (\<lambda>log a. parseLog_args E log = Inr a) pre decoded \<and> parseLog_args E log = Inl e"
    if "getDepositEvents E this = Inl e"
  proof -
    from that have "map_throwing (parseLog_args E) ?ls = Inl e"
      by (simp only: getDepositEvents_filter_map)
    from map_throwing_Inl_D [OF this] obtain pre log post decoded where
      "?ls = pre @ log # post" and d: "map_throwing (parseLog_args E) pre = Inr decoded"
      and "parseLog_args E log = Inl e"
      by blast
    with map_throwing_Inr_D [OF d] show ?thesis by blast
  qed
  have failed: "getDepositEvents E this = Inl e"
    if "\<exists>pre log post decoded. ?ls = pre @ log # post \<and>
      list_all2 (\<lambda>log a. parseLog_args E log = Inr a) pre decoded \<and> parseLog_args E log = Inl e"
  proof -
    from that obtain pre log post decoded where
      s: "?ls = pre @ log # post" and
      d: "list_all2 (\<lambda>log a. parseLog_args E log = Inr a) pre decoded" and
      l: "parseLog_args E log = Inl e"
      by blast
    from map_throwing_append_Inl [OF map_throwing_Inr_I [OF d] l, of post] s
    show ?thesis by (simp only: getDepositEvents_filter_map)
  qed
  from ok fails failed show ?thesis by blast
qed

theorem getDepositEvents_decodes_deposit_logs_witness:
  "length (logs one_deposit) = 3 \<and>
   getDepositEvents demo one_deposit = Inr [[''0xf0'', ''0x70'', ''0x03'', ''0x64'']] \<and>
   getDepositEvents demo bad_deposit_second = Inl (Thrown ''topic count mismatch'')"
proof -
  have three: "length (logs one_deposit) = 3"
    by (simp add: one_deposit_def receipt_with_def)
  have "list_all2 (\<lambda>log a. parseLog_args demo log = Inr a)
          (filter (is_deposit_initiated demo) (logs one_deposit))
          [[''0xf0'', ''0x70'', ''0x03'', ''0x64'']]"
    using deposit_log_args by (simp add: one_deposit_filtered)
  with getDepositEvents_decodes_deposit_logs
    [of demo one_deposit "[[''0xf0'', ''0x70'', ''0x03'', ''0x64'']]" undefined]
  have ok: "getDepositEvents demo one_deposit = Inr [[''0xf0'', ''0x70'', ''0x03'', ''0x64'']]"
    by blast
  have "list_all2 (\<lambda>log a. parseLog_args demo log = Inr a)
          [deposit_log] [[''0xf0'', ''0x70'', ''0x03'', ''0x64'']]"
    using deposit_log_args by simp
  with bad_deposit_second_filtered bad_deposit_log_throws
  have "\<exists>pre log post decoded.
          filter (is_deposit_initiated demo) (logs bad_deposit_second) = pre @ log # post \<and>
          list_all2 (\<lambda>log a. parseLog_args demo log = Inr a) pre decoded \<and>
          parseLog_args demo log = Inl (Thrown ''topic count mismatch'')"
    by blast
  with getDepositEvents_decodes_deposit_logs
    [of demo bad_deposit_second undefined "Thrown ''topic count mismatch''"]
  have bad: "getDepositEvents demo bad_deposit_second = Inl (Thrown ''topic count mismatch'')"
    by blast
  from three ok bad show ?thesis by blast
qed

text \<open>
  Claim C6 as it was stated has the failure be a \<open>LogDecodeError\<close> that carries the
  offending log's index. On the instance, the same malformed deposit entry standing at
  index 0 of one receipt and at index 1 of another (with \<^verbatim>\<open>logIndex\<close> 0 and 1) makes
  the method fail both times with one and the same value, the exception of the decoder:
  the failure is no error of this file's making and tells no index.
\<close>

theorem getDepositEvents_LogDecodeError_counterexample:
  "js_index (logs bad_deposit_first) 0 = Some (log_with [''DepositInitiated'']) \<and>
   logIndex (log_with [''DepositInitiated'']) = 0 \<and>
   getDepositEvents demo bad_deposit_first = Inl (Thrown ''topic count mismatch'') \<and>
   js_index (logs bad_deposit_second) 1 =
     Some ((log_with [''DepositInitiated''])\<lparr> logIndex := 1 \<rparr>) \<and>
   logIndex ((log_with [''DepositInitiated''])\<lparr> logIndex := 1 \<rparr>) = 1 \<and>
   getDepositEvents demo bad_deposit_second = Inl (Thrown ''topic count mismatch'') \<and>
   parseLog_args demo (log_with [''DepositInitiated'']) = Inl (Thrown ''topic count mismatch'')"
  by (simp add: getDepositEvents_def bad_deposit_first_def bad_deposit_second_def
      receipt_with_def log_with_def deposit_log_def demo_def demo_parseLog_args_def js_index_def)

subsection \<open>The deposit heuristic\<close>

lemma startsWith_iff: "startsWith s p \<longleftrightarrow> (\<exists>rest. s = p @ rest)"
proof
  assume "startsWith s p"
  then have "s = p @ drop (length p) s"
    unfolding startsWith_def by (metis append_take_drop_id)
  then show "\<exists>rest. s = p @ rest" ..
next
  assume "\<exists>rest. s = p @ rest"
  then show "startsWith s p" by (auto simp add: startsWith_def)
qed

lemma looksLikeEthDeposit_provider_throws:
  "getProviderOrThrow E h = Inl e \<Longrightarrow> looksLikeEthDeposit E this h = ([], Inl e)"
  by (simp add: looksLikeEthDeposit_def)

lemma looksLikeEthDeposit_fetch_rejects:
  "getProviderOrThrow E h = Inr p \<Longrightarrow> getTransaction p (transactionHash this) = Inl e \<Longrightarrow>
     looksLikeEthDeposit E this h = ([GetTransaction (transactionHash this)], Inl e)"
  by (simp add: looksLikeEthDeposit_def)

text \<open>
  Claim C7. Given a handle that has a provider, \<^verbatim>\<open>looksLikeEthDeposit\<close> makes one call,
  fetching the transaction by the receipt's transaction hash, and when the fetch answers
  it returns true if and only if the call data of the fetched transaction begins with
  the selector \<^verbatim>\<open>0x0f4d14e9\<close>, four bytes written as a hexadecimal string.
\<close>

theorem looksLikeEthDeposit_tests_selector:
  assumes "getProviderOrThrow E l1SignerOrProvider = Inr l1Provider"
    and "getTransaction l1Provider (transactionHash this) = Inr txRes"
  shows "looksLikeEthDeposit E this l1SignerOrProvider =
           ([GetTransaction (transactionHash this)],
            Inr (\<exists>rest. data txRes = ''0x0f4d14e9'' @ rest))"
  using assms startsWith_iff [of "data txRes" "''0x0f4d14e9''"]
  by (simp add: looksLikeEthDeposit_def depositEth_FUNCTION_SIG_def)

theorem looksLikeEthDeposit_tests_selector_witness:
  "getProviderOrThrow demo (ProviderHandle arb1) = Inr arb1 \<and>
   getTransaction arb1 (transactionHash two_deliveries) = Inr \<lparr> data = ''0x0f4d14e90000002a'' \<rparr> \<and>
   looksLikeEthDeposit demo two_deliveries (ProviderHandle arb1) =
     ([GetTransaction ''0xaa''], Inr True) \<and>
   getTransaction arb1 (transactionHash one_delivery) = Inr \<lparr> data = ''0xa9059cbb0f4d14e9'' \<rparr> \<and>
   looksLikeEthDeposit demo one_delivery (ProviderHandle arb1) =
     ([GetTransaction ''0xbb''], Inr False)"
proof -
  have p: "getProviderOrThrow demo (ProviderHandle arb1) = Inr arb1"
    by (simp add: demo_def demo_getProviderOrThrow_def)
  have a: "getTransaction arb1 (transactionHash two_deliveries) =
             Inr \<lparr> data = ''0x0f4d14e90000002a'' \<rparr>"
    by (simp add: arb1_def two_deliveries_def receipt_with_def)
  have b: "getTransaction arb1 (transactionHash one_delivery) =
             Inr \<lparr> data = ''0xa9059cbb0f4d14e9'' \<rparr>"
    by (simp add: arb1_def one_delivery_def receipt_with_def)
  have ha: "transactionHash two_deliveries = ''0xaa''"
    and hb: "transactionHash one_delivery = ''0xbb''"
    by (simp_all add: two_deliveries_def one_delivery_def receipt_with_def)
  from looksLikeEthDeposit_tests_selector [OF p a] ha
  have ta: "looksLikeEthDeposit demo two_deliveries (ProviderHandle arb1) =
     ([GetTransaction ''0xaa''], Inr True)"
    by simp
  from looksLikeEthDeposit_tests_selector [OF p b] hb
  have tb: "looksLikeEthDeposit demo one_delivery (ProviderHandle arb1) =
     ([GetTransaction ''0xbb''], Inr False)"
    by simp
  from p a b ta tb show ?thesis by blast
qed

subsection \<open>Patching \<^verbatim>\<open>wait\<close>\<close>

text \<open>
  Claim C9. After \<^verbatim>\<open>monkeyPatchWait\<close>, awaiting \<^verbatim>\<open>wait\<close> with some confirmations
  yields the \<^verbatim>\<open>L1TransactionReceipt\<close> constructed from the receipt that the original
  \<^verbatim>\<open>wait\<close> yields for the same confirmations, and rejects as the original does when
  that rejects. The argument and the shape of the result are those of the original, and
  the other fields of the transaction are untouched.
\<close>

theorem monkeyPatchWait_wraps_the_receipt:
  "(wait contractTransaction n = Inr result \<longrightarrow>
      wait (monkeyPatchWait contractTransaction) n =
        Inr (L1TransactionReceipt result)) \<and>
   (wait contractTransaction n = Inl e \<longrightarrow>
      wait (monkeyPatchWait contractTransaction) n = Inl e) \<and>
   others (monkeyPatchWait contractTransaction) = others contractTransaction"
  by (simp add: monkeyPatchWait_def)

theorem monkeyPatchWait_wraps_the_receipt_witness:
  "wait pending (Some 1) = Inr one_deposit \<and>
   wait (monkeyPatchWait pending) (Some 1) = Inr (L1TransactionReceipt one_deposit) \<and>
   wait pending (Some 64) = Inl (Thrown ''timeout exceeded'') \<and>
   wait (monkeyPatchWait pending) (Some 64) = Inl (Thrown ''timeout exceeded'') \<and>
   others (monkeyPatchWait pending) = ''0xdd''"
proof -
  have a: "wait pending (Some 1) = Inr one_deposit"
    and b: "wait pending (Some 64) = Inl (Thrown ''timeout exceeded'')"
    and c: "others pending = ''0xdd''"
    by (simp_all add: pending_def)
  from monkeyPatchWait_wraps_the_receipt
    [of pending "Some 1" one_deposit "Thrown ''timeout exceeded''"] a
  have a': "wait (monkeyPatchWait pending) (Some 1) = Inr (L1TransactionReceipt one_deposit)"
    by blast
  from monkeyPatchWait_wraps_the_receipt
    [of pending "Some 64" one_deposit "Thrown ''timeout exceeded''"] b c
  have b': "wait (monkeyPatchWait pending) (Some 64) = Inl (Thrown ''timeout exceeded'')"
    and c': "others (monkeyPatchWait pending) = ''0xdd''"
    by simp_all
  from a a' b b' c' show ?thesis by blast
qed

text \<open>Patching a patched transaction changes no outcome.\<close>

lemma monkeyPatchWait_twice:
  "wait (monkeyPatchWait (monkeyPatchWait contractTransaction)) n =
     wait (monkeyPatchWait contractTransaction) n"
  by (cases "wait contractTransaction n")
     (simp_all add: monkeyPatchWait_def L1TransactionReceipt_idem)

end
